theory Spec2Isabelle
  imports Main
begin

section \<open>JavaScript values and objects\<close>

text \<open>
  The extension is TypeScript; at run time its option objects hold untyped JavaScript
  values. A field that is absent and a field that holds \<open>undefined\<close> both read as
  \<open>Undefined\<close>. Numbers are modelled as integers (indentation widths), so \<open>NaN\<close> and
  signed zero do not occur. \<open>null\<close> is not produced anywhere in the modelled code.
\<close>

datatype jsval = Undefined | JBool bool | JNum int | JStr string

text \<open>JavaScript truthiness, as used by \<open>if (x)\<close> and \<open>!x\<close>.\<close>

fun truthy :: "jsval \<Rightarrow> bool" where
  "truthy Undefined = False"
| "truthy (JBool b) = b"
| "truthy (JNum n) = (n \<noteq> 0)"
| "truthy (JStr s) = (s \<noteq> [])"

text \<open>The nullish coalescing operator \<open>a ?? b\<close>.\<close>

definition coalesce :: "jsval \<Rightarrow> jsval \<Rightarrow> jsval" where
  "coalesce a b = (if a = Undefined then b else a)"

text \<open>\<open>typeof x === 'boolean'\<close> and \<open>typeof x === 'number'\<close>.\<close>

fun is_boolean :: "jsval \<Rightarrow> bool" where
  "is_boolean (JBool b) = True"
| "is_boolean v = False"

fun is_number :: "jsval \<Rightarrow> bool" where
  "is_number (JNum n) = True"
| "is_number v = False"

text \<open>
  An object with string keys: the EditorConfig property map (\<open>editorconfig.KnownProps\<close>)
  and the host's \<open>WorkspaceConfiguration\<close>. Reading a missing key gives \<open>undefined\<close>.
\<close>

type_synonym props = "string \<rightharpoonup> jsval"

definition getProp :: "props \<Rightarrow> string \<Rightarrow> jsval" where
  "getProp m k = (case m k of None \<Rightarrow> Undefined | Some v \<Rightarrow> v)"

text \<open>
  \<open>TextEditorIndentationOptions\<close>, \<open>TextEditorResolvedIndentationOptions\<close> and the
  indentation part of the host's \<open>TextEditorOptions\<close>: three fields, each a JavaScript value.
\<close>

record indentation_options =
  insertSpaces :: jsval
  indentSize :: jsval
  tabSize :: jsval

definition emptyOptions :: indentation_options where
  "emptyOptions = \<lparr>insertSpaces = Undefined, indentSize = Undefined, tabSize = Undefined\<rparr>"

section \<open>api.ts: the property mapper\<close>

text \<open>\<open>fromEditorConfig\<close>: three \<open>switch\<close> statements, one per field.\<close>

definition fromEditorConfig :: "props \<Rightarrow> indentation_options" where
  "fromEditorConfig editorConfig =
     \<lparr>insertSpaces =
        (let v = getProp editorConfig ''indent_style'' in
         if v = JStr ''space'' then JBool True
         else if v = JStr ''tab'' then JBool False
         else if v = JStr ''unset'' then Undefined
         else v),
      indentSize =
        (let v = getProp editorConfig ''indent_size'' in
         if v = JStr ''tab'' then JStr ''tabSize''
         else if v = JStr ''unset'' then Undefined
         else v),
      tabSize =
        (let v = getProp editorConfig ''tab_width'' in
         if v = JStr ''unset'' then Undefined
         else v)\<rparr>"

section \<open>api.ts: reading the live editor state\<close>

text \<open>
  \<open>toTextEditorResolvedIndentationOptions\<close> throws unless the three live fields have
  their resolved types. The thrown \<open>Error\<close> is the left summand, carrying its message.
\<close>

definition toTextEditorResolvedIndentationOptions ::
  "indentation_options \<Rightarrow> string + indentation_options" where
  "toTextEditorResolvedIndentationOptions editor_options =
     (if \<not> is_boolean (insertSpaces editor_options)
        then Inl ''Expected insertSpaces to be a boolean''
      else if \<not> is_number (tabSize editor_options)
        then Inl ''Expected tabSize to be a number''
      else if \<not> is_number (indentSize editor_options)
        then Inl ''Expected indentSize to be a number''
      else Inr \<lparr>insertSpaces = insertSpaces editor_options,
                indentSize = indentSize editor_options,
                tabSize = tabSize editor_options\<rparr>)"

text \<open>\<open>getWorkspaceIndentationSettings\<close>, reading the host's \<open>editor\<close> configuration.\<close>

definition getWorkspaceIndentationSettings :: "props \<Rightarrow> indentation_options" where
  "getWorkspaceIndentationSettings workspaceConfig =
     (let detectIndentation = getProp workspaceConfig ''detectIndentation'' in
      if truthy detectIndentation then emptyOptions
      else \<lparr>insertSpaces = getProp workspaceConfig ''insertSpaces'',
            indentSize = getProp workspaceConfig ''indentSize'',
            tabSize = getProp workspaceConfig ''tabSize''\<rparr>)"

section \<open>api.ts: reconciliation\<close>

text \<open>
  What \<open>applyTextEditorOptions\<close> asks of the host, in the order it asks: the warning prompt
  with its items, a configuration update, a command, an assignment to a field of
  \<open>editor.options\<close>, an error message. The optional \<open>log\<close> channel is not modelled.
\<close>

datatype option_field = InsertSpaces | IndentSize | TabSize

datatype effect =
    ShowWarningMessage "string list"
  | UpdateSetting string jsval
  | ExecuteCommand string
  | SetOption option_field jsval
  | ShowErrorMessage string
  | Log string

text \<open>
  The live view: the editor's options and the \<open>editor\<close> section of the workspace
  configuration, both owned by the host.
\<close>

record view =
  options :: indentation_options
  settings :: props

text \<open>
  Lines 105 to 148: the mutated \<open>newOptions\<close> and the collected \<open>optionsToUpdate\<close>.
  \<open>useTabSize\<close> is the truthiness of the configuration value.
\<close>

definition detectChanges ::
  "indentation_options \<Rightarrow> indentation_options \<Rightarrow> bool \<Rightarrow> indentation_options
     \<Rightarrow> indentation_options \<times> indentation_options" where
  "detectChanges currentOptions workspaceOptions useTabSize newOptions =
     (let u1 = (if insertSpaces newOptions \<noteq> Undefined
                   \<and> insertSpaces newOptions \<noteq> insertSpaces currentOptions
                then emptyOptions\<lparr>insertSpaces := insertSpaces newOptions\<rparr>
                else emptyOptions);
          n1 = (if indentSize newOptions \<noteq> Undefined
                   \<and> indentSize newOptions = JStr ''tabSize''
                then newOptions\<lparr>tabSize := coalesce (tabSize workspaceOptions) (JNum 4)\<rparr>
                else newOptions);
          u2 = (if indentSize n1 \<noteq> Undefined \<and> indentSize n1 \<noteq> indentSize currentOptions
                then u1\<lparr>indentSize := indentSize n1\<rparr>
                else u1);
          u3 = (if tabSize n1 \<noteq> Undefined \<and> useTabSize
                then u2\<lparr>tabSize := tabSize n1\<rparr>
                else u2)
      in (n1, u3))"

text \<open>
  Lines 178 to 212. The host's reaction to an assignment \<open>editor.options.f = v\<close> is the
  parameter \<open>assign\<close>; the command is not awaited, so its effect is not visible to the
  rest of the function.
\<close>

definition fallbackTabSize ::
  "indentation_options \<Rightarrow> indentation_options \<Rightarrow> indentation_options \<Rightarrow> jsval" where
  "fallbackTabSize optionsToUpdate newOptions workspaceOptions =
     coalesce (indentSize optionsToUpdate)
       (coalesce (indentSize newOptions)
          (coalesce (indentSize workspaceOptions)
             (coalesce (tabSize workspaceOptions) (JNum 4))))"

definition applyChanges ::
  "(option_field \<Rightarrow> jsval \<Rightarrow> indentation_options \<Rightarrow> indentation_options)
     \<Rightarrow> indentation_options \<Rightarrow> indentation_options \<Rightarrow> indentation_options
     \<Rightarrow> indentation_options \<Rightarrow> effect list \<times> indentation_options" where
  "applyChanges assign editor_options newOptions workspaceOptions optionsToUpdate =
     (let (fx1, e1, u1) =
            (if insertSpaces optionsToUpdate \<noteq> Undefined then
               (let fxc = (if insertSpaces optionsToUpdate = JBool False
                           then [ExecuteCommand ''editor.action.indentationToTabs'']
                           else []);
                    ea = assign InsertSpaces (insertSpaces optionsToUpdate) editor_options;
                    ub = (if insertSpaces optionsToUpdate = JBool True
                             \<and> tabSize optionsToUpdate = Undefined
                          then optionsToUpdate
                                 \<lparr>tabSize := fallbackTabSize optionsToUpdate newOptions workspaceOptions\<rparr>
                          else optionsToUpdate);
                    eb = assign TabSize (tabSize ub) ea
                in (fxc @ [SetOption InsertSpaces (insertSpaces optionsToUpdate),
                           SetOption TabSize (tabSize ub)], eb, ub))
             else ([], editor_options, optionsToUpdate))
      in if insertSpaces e1 \<noteq> insertSpaces u1
         then (fx1 @ [ShowErrorMessage ''Failed to change editor indentation''], e1)
         else
           (let (fx2, e2) =
                  (if indentSize u1 \<noteq> Undefined
                   then ([SetOption IndentSize (indentSize u1)], assign IndentSize (indentSize u1) e1)
                   else ([], e1));
                (fx3, e3) =
                  (if tabSize u1 \<noteq> Undefined
                   then ([SetOption TabSize (indentSize u1)], assign TabSize (indentSize u1) e2)
                   else ([], e2))
            in (fx1 @ fx2 @ fx3, e3)))"

text \<open>
  \<open>applyTextEditorOptions\<close>. \<open>answer\<close> is what the user picks if the warning is shown
  (\<open>None\<close>: the message is dismissed). \<open>isDeepStrictEqual(newOptions, currentOptions)\<close>
  compares against an object whose three fields are all defined, so it holds exactly when
  the three fields of \<open>newOptions\<close> are defined and equal: record equality.
\<close>

definition promptItems :: "string list" where
  "promptItems = [''Yes'', ''No'', ''Always Apply For Workspace'']"

definition applyTextEditorOptions ::
  "(option_field \<Rightarrow> jsval \<Rightarrow> indentation_options \<Rightarrow> indentation_options)
     \<Rightarrow> string option \<Rightarrow> 'a view_scheme \<Rightarrow> indentation_options
     \<Rightarrow> string + (effect list \<times> 'a view_scheme)" where
  "applyTextEditorOptions assign answer editor newOptions =
     (case toTextEditorResolvedIndentationOptions (options editor) of
        Inl err \<Rightarrow> Inl err
      | Inr currentOptions \<Rightarrow>
          (let workspaceOptions = getWorkspaceIndentationSettings (settings editor);
               editorSettings = settings editor
           in if newOptions = currentOptions then Inr ([], editor)
              else
                (let (newOptions', optionsToUpdate) =
                       detectChanges currentOptions workspaceOptions
                         (truthy (getProp editorSettings ''useTabSize'')) newOptions
                 in if insertSpaces optionsToUpdate = Undefined
                       \<and> indentSize optionsToUpdate = Undefined
                       \<and> tabSize optionsToUpdate = Undefined
                    then Inr ([], editor)
                    else if \<not> (answer = Some ''Yes''
                                 \<or> answer = Some ''Always Apply For Workspace'')
                    then Inr ([ShowWarningMessage promptItems], editor)
                    else
                      (let (fx0, editor1) =
                             (if answer = Some ''Always Apply For Workspace''
                              then ([UpdateSetting ''autoApply'' (JBool True)],
                                    editor\<lparr>settings := (settings editor)(''autoApply'' \<mapsto> JBool True)\<rparr>)
                              else ([], editor));
                           (fx, e) = applyChanges assign (options editor1) newOptions'
                                       workspaceOptions optionsToUpdate
                       in Inr (ShowWarningMessage promptItems # fx0 @ fx,
                               editor1\<lparr>options := e\<rparr>)))))"

text \<open>A host that stores every assigned value, and one that ignores assignments to the style flag.\<close>

fun storing_host :: "option_field \<Rightarrow> jsval \<Rightarrow> indentation_options \<Rightarrow> indentation_options" where
  "storing_host InsertSpaces v e = e\<lparr>insertSpaces := v\<rparr>"
| "storing_host IndentSize v e = e\<lparr>indentSize := v\<rparr>"
| "storing_host TabSize v e = e\<lparr>tabSize := v\<rparr>"

fun style_locked_host :: "option_field \<Rightarrow> jsval \<Rightarrow> indentation_options \<Rightarrow> indentation_options" where
  "style_locked_host InsertSpaces v e = e"
| "style_locked_host IndentSize v e = e\<lparr>indentSize := v\<rparr>"
| "style_locked_host TabSize v e = e\<lparr>tabSize := v\<rparr>"

section \<open>api.ts: resolving the configuration of a document\<close>

text \<open>
  A \<open>TextDocument\<close>, with its \<open>Uri\<close> identified with the file-system path, and a
  \<open>TextEditor\<close>: a view together with its document.
\<close>

record text_document =
  languageId :: string
  isUntitled :: bool
  uri :: string
  fileName :: string

record text_editor = view +
  document :: text_document

text \<open>
  What the functions use of the host's \<open>workspace\<close> and \<open>Uri\<close> and of the
  \<open>editorconfig\<close> package, taken as parameters. \<open>parse\<close> gives \<open>None\<close> for a falsy
  result and \<open>Some m\<close> for an object, which is truthy even when it has no keys.
  An optional string is falsy when it is \<open>undefined\<close> or empty.
\<close>

record workspace_env =
  workspaceFolders :: "string list"
  asRelativePath :: "string \<Rightarrow> bool option \<Rightarrow> string"
  joinPath :: "string \<Rightarrow> string \<Rightarrow> string"
  parse :: "string \<Rightarrow> props option"

definition getFile :: "workspace_env \<Rightarrow> text_document \<Rightarrow> string option" where
  "getFile env doc =
     (if \<not> isUntitled doc then Some (uri doc)
      else case workspaceFolders env of
             folder # _ \<Rightarrow> Some (joinPath env folder (fileName doc))
           | [] \<Rightarrow> None)"

text \<open>\<open>resolveFile\<close>: the pair \<open>(fileName, relativePath)\<close>.\<close>

definition resolveFile :: "workspace_env \<Rightarrow> text_document \<Rightarrow> string option \<times> string option" where
  "resolveFile env doc =
     (if languageId doc = ''Log'' then (None, None)
      else (let file = getFile env doc in
            (file, case file of None \<Rightarrow> None
                   | Some f \<Rightarrow> Some (asRelativePath env f (Some True)))))"

text \<open>
  \<open>resolveEditorConfigFromFiles\<close>: the callback's effects and the resolved settings.
  Without a file name the result is the empty object \<open>{}\<close>.
\<close>

definition resolveEditorConfigFromFiles ::
  "workspace_env \<Rightarrow> (string \<Rightarrow> effect list) option \<Rightarrow> text_document
     \<Rightarrow> effect list \<times> props option" where
  "resolveEditorConfigFromFiles env onBeforeResolve doc =
     (let (fileName, relativePath) = resolveFile env doc in
      case fileName of
        None \<Rightarrow> ([], Some Map.empty)
      | Some fn \<Rightarrow>
          if fn = [] then ([], Some Map.empty)
          else ((case relativePath of
                   None \<Rightarrow> []
                 | Some rp \<Rightarrow>
                     if rp = [] then []
                     else (case onBeforeResolve of None \<Rightarrow> [] | Some callback \<Rightarrow> callback rp)),
                parse env fn))"

text \<open>\<open>resolveEditorConfigOptions\<close>.\<close>

definition resolveEditorConfigOptions ::
  "workspace_env \<Rightarrow> (string \<Rightarrow> effect list) option \<Rightarrow> (string \<Rightarrow> effect list) option
     \<Rightarrow> text_document \<Rightarrow> effect list \<times> indentation_options" where
  "resolveEditorConfigOptions env onBeforeResolve onEmptyConfig doc =
     (let (fx, editorconfigSettings) = resolveEditorConfigFromFiles env onBeforeResolve doc in
      case editorconfigSettings of
        Some s \<Rightarrow> (fx, fromEditorConfig s)
      | None \<Rightarrow>
          (fx @ (case onEmptyConfig of
                   None \<Rightarrow> []
                 | Some callback \<Rightarrow>
                     (case snd (resolveFile env doc) of
                        None \<Rightarrow> []
                      | Some rp \<Rightarrow> if rp = [] then [] else callback rp)),
           emptyOptions))"

section \<open>DocumentWatcher.ts\<close>

text \<open>The watcher's \<open>log\<close> and its two callbacks.\<close>

definition onEmptyConfig :: "string \<Rightarrow> effect list" where
  "onEmptyConfig relativePath = [Log (relativePath @ '': No configuration.'')]"

definition onBeforeResolve :: "string \<Rightarrow> effect list" where
  "onBeforeResolve relativePath = [Log (relativePath @ '': Using EditorConfig core...'')]"

text \<open>
  The three transformations are classes of a module that is not among the sources; their
  \<open>transform\<close> method is the parameter \<open>transform\<close>, giving \<open>edits\<close> (an \<open>Error\<close>, on the
  left with its message, or a list of edits) and an optional \<open>message\<close>.
\<close>

datatype transformer = SetEndOfLine | TrimTrailingWhitespace | InsertFinalNewline

record 'e transform_result =
  edits :: "string + 'e list"
  message :: "string option"

definition preSaveTransformations :: "transformer list" where
  "preSaveTransformations = [SetEndOfLine, TrimTrailingWhitespace, InsertFinalNewline]"

text \<open>The callback given to \<open>flatMap\<close>: the log entries it writes and the edits it returns.\<close>

definition transformStep ::
  "(transformer \<Rightarrow> props \<Rightarrow> text_document \<Rightarrow> 'r \<Rightarrow> 'e transform_result)
     \<Rightarrow> string \<Rightarrow> props \<Rightarrow> text_document \<Rightarrow> 'r \<Rightarrow> transformer
     \<Rightarrow> effect list \<times> 'e list" where
  "transformStep transform relativePath editorconfigSettings doc reason t =
     (let r = transform t editorconfigSettings doc reason in
      case edits r of
        Inl err \<Rightarrow> ([Log (relativePath @ '': '' @ err)], [])
      | Inr es \<Rightarrow>
          ((case message r of
              None \<Rightarrow> []
            | Some m \<Rightarrow> if m = [] then [] else [Log (relativePath @ '': '' @ m)]), es))"

text \<open>\<open>flatMap\<close> calls the callback on each element in order and concatenates the results.\<close>

fun flatMap :: "('a \<Rightarrow> effect list \<times> 'e list) \<Rightarrow> 'a list \<Rightarrow> effect list \<times> 'e list" where
  "flatMap f [] = ([], [])"
| "flatMap f (x # xs) =
     (let (fx, es) = f x; (fx', es') = flatMap f xs in (fx @ fx', es @ es'))"

definition calculatePreSaveTransformations ::
  "workspace_env \<Rightarrow> (transformer \<Rightarrow> props \<Rightarrow> text_document \<Rightarrow> 'r \<Rightarrow> 'e transform_result)
     \<Rightarrow> text_document \<Rightarrow> 'r \<Rightarrow> effect list \<times> 'e list" where
  "calculatePreSaveTransformations env transform doc reason =
     (let (fx, editorconfigSettings) =
            resolveEditorConfigFromFiles env (Some onBeforeResolve) doc;
          relativePath = asRelativePath env (fileName doc) None
      in case editorconfigSettings of
           None \<Rightarrow> (fx @ [Log (relativePath @ '': No configuration found for pre-save.'')], [])
         | Some s \<Rightarrow>
             (let (fx', es) =
                    flatMap (transformStep transform relativePath s doc reason)
                      preSaveTransformations
              in (fx @ fx', es)))"

text \<open>
  \<open>handleChangeActiveTextEditor\<close>: its own log entries, and the outcome of the call of
  \<open>applyTextEditorOptions\<close> it starts. \<open>None\<close> is the absent editor; an editor always
  has a document.
\<close>

definition handleChangeActiveTextEditor ::
  "workspace_env \<Rightarrow> (option_field \<Rightarrow> jsval \<Rightarrow> indentation_options \<Rightarrow> indentation_options)
     \<Rightarrow> string option \<Rightarrow> text_editor option
     \<Rightarrow> effect list \<times> (string + (effect list \<times> text_editor)) option" where
  "handleChangeActiveTextEditor env assign answer editor =
     (case editor of
        None \<Rightarrow> ([Log ''No document in active text editor. Nothing to do.''], None)
      | Some ed \<Rightarrow>
          (let (fx, desiredOptions) =
                 resolveEditorConfigOptions env None (Some onEmptyConfig) (document ed)
           in (fx, Some (applyTextEditorOptions assign answer ed desiredOptions))))"

section \<open>Auxiliary facts about reconciliation\<close>

lemma resolved_self:
  "is_boolean (insertSpaces e) \<Longrightarrow> is_number (tabSize e) \<Longrightarrow> is_number (indentSize e)
     \<Longrightarrow> toTextEditorResolvedIndentationOptions e = Inr e"
  by (simp add: toTextEditorResolvedIndentationOptions_def)

lemma detect_fst:
  "insertSpaces (fst (detectChanges c ws b n)) = insertSpaces n"
  "indentSize (fst (detectChanges c ws b n)) = indentSize n"
  "tabSize (fst (detectChanges c ws b n)) =
     (if indentSize n = JStr ''tabSize'' then coalesce (tabSize ws) (JNum 4) else tabSize n)"
  by (simp_all add: detectChanges_def Let_def)

lemma detect_snd:
  "insertSpaces (snd (detectChanges c ws b n)) =
     (if insertSpaces n \<noteq> Undefined \<and> insertSpaces n \<noteq> insertSpaces c
      then insertSpaces n else Undefined)"
  "indentSize (snd (detectChanges c ws b n)) =
     (if indentSize n \<noteq> Undefined \<and> indentSize n \<noteq> indentSize c
      then indentSize n else Undefined)"
  "tabSize (snd (detectChanges c ws b n)) =
     (if b \<and> tabSize (fst (detectChanges c ws b n)) \<noteq> Undefined
      then tabSize (fst (detectChanges c ws b n)) else Undefined)"
  by (simp_all add: detectChanges_def Let_def emptyOptions_def)

text \<open>The function on a resolved live state, with the tuples projected.\<close>

lemma apply_resolved:
  assumes "is_boolean (insertSpaces (options editor))" "is_number (tabSize (options editor))"
     "is_number (indentSize (options editor))"
  shows "applyTextEditorOptions assign answer editor n =
     (let ws = getWorkspaceIndentationSettings (settings editor);
          d = detectChanges (options editor) ws (truthy (getProp (settings editor) ''useTabSize'')) n
      in if n = options editor then Inr ([], editor)
         else if insertSpaces (snd d) = Undefined \<and> indentSize (snd d) = Undefined
                 \<and> tabSize (snd d) = Undefined then Inr ([], editor)
         else if \<not> (answer = Some ''Yes'' \<or> answer = Some ''Always Apply For Workspace'')
           then Inr ([ShowWarningMessage promptItems], editor)
         else Inr (ShowWarningMessage promptItems #
                    (if answer = Some ''Always Apply For Workspace''
                     then [UpdateSetting ''autoApply'' (JBool True)] else [])
                    @ fst (applyChanges assign (options editor) (fst d) ws (snd d)),
                   (if answer = Some ''Always Apply For Workspace''
                    then editor\<lparr>settings := (settings editor)(''autoApply'' \<mapsto> JBool True)\<rparr>
                    else editor)
                     \<lparr>options := snd (applyChanges assign (options editor) (fst d) ws (snd d))\<rparr>))"
  using assms
  by (simp add: applyTextEditorOptions_def resolved_self Let_def split_beta)

text \<open>The application phase when the diff holds a style.\<close>

lemma applyChanges_style:
  assumes "insertSpaces u \<noteq> Undefined"
  shows "applyChanges assign e n ws u =
     (let t = (if insertSpaces u = JBool True \<and> tabSize u = Undefined
               then fallbackTabSize u n ws else tabSize u);
          e1 = assign TabSize t (assign InsertSpaces (insertSpaces u) e);
          pre = (if insertSpaces u = JBool False
                 then [ExecuteCommand ''editor.action.indentationToTabs''] else [])
                @ [SetOption InsertSpaces (insertSpaces u), SetOption TabSize t]
      in if insertSpaces e1 \<noteq> insertSpaces u
         then (pre @ [ShowErrorMessage ''Failed to change editor indentation''], e1)
         else (pre @ (if indentSize u \<noteq> Undefined then [SetOption IndentSize (indentSize u)] else [])
                   @ (if t \<noteq> Undefined then [SetOption TabSize (indentSize u)] else []),
               (if t \<noteq> Undefined then assign TabSize (indentSize u) else id)
                 ((if indentSize u \<noteq> Undefined then assign IndentSize (indentSize u) else id) e1)))"
  using assms
  by (simp add: applyChanges_def Let_def split_beta)

section \<open>The property mapper\<close>

text \<open>
  C7. The mapper sends \<open>indent_style\<close> \<open>space\<close> to \<open>insertSpaces = true\<close>, \<open>tab\<close> to
  \<open>false\<close>, \<open>unset\<close> to undefined, and passes any other value through; \<open>indent_size\<close>
  \<open>tab\<close> becomes the symbolic \<open>'tabSize'\<close>, \<open>unset\<close> becomes undefined, a number passes
  through; \<open>tab_width\<close> \<open>unset\<close> becomes undefined and a number passes through. Being a
  HOL function of the property map alone, the mapper is pure.
\<close>

theorem fromEditorConfig_mapping:
  "(getProp c ''indent_style'' = JStr ''space'' \<longrightarrow> insertSpaces (fromEditorConfig c) = JBool True)
   \<and> (getProp c ''indent_style'' = JStr ''tab'' \<longrightarrow> insertSpaces (fromEditorConfig c) = JBool False)
   \<and> (getProp c ''indent_style'' = JStr ''unset'' \<longrightarrow> insertSpaces (fromEditorConfig c) = Undefined)
   \<and> (getProp c ''indent_style'' \<notin> {JStr ''space'', JStr ''tab'', JStr ''unset''}
        \<longrightarrow> insertSpaces (fromEditorConfig c) = getProp c ''indent_style'')
   \<and> (getProp c ''indent_size'' = JStr ''tab'' \<longrightarrow> indentSize (fromEditorConfig c) = JStr ''tabSize'')
   \<and> (getProp c ''indent_size'' = JStr ''unset'' \<longrightarrow> indentSize (fromEditorConfig c) = Undefined)
   \<and> (\<forall>n. getProp c ''indent_size'' = JNum n \<longrightarrow> indentSize (fromEditorConfig c) = JNum n)
   \<and> (getProp c ''tab_width'' = JStr ''unset'' \<longrightarrow> tabSize (fromEditorConfig c) = Undefined)
   \<and> (\<forall>n. getProp c ''tab_width'' = JNum n \<longrightarrow> tabSize (fromEditorConfig c) = JNum n)"
  by (simp add: fromEditorConfig_def Let_def)

theorem fromEditorConfig_mapping_witness:
  "fromEditorConfig [''indent_style'' \<mapsto> JStr ''space'', ''indent_size'' \<mapsto> JStr ''tab'',
                     ''tab_width'' \<mapsto> JStr ''unset'']
     = \<lparr>insertSpaces = JBool True, indentSize = JStr ''tabSize'', tabSize = Undefined\<rparr>
   \<and> fromEditorConfig [''indent_style'' \<mapsto> JStr ''tab'', ''indent_size'' \<mapsto> JStr ''unset'',
                       ''tab_width'' \<mapsto> JNum 8]
     = \<lparr>insertSpaces = JBool False, indentSize = Undefined, tabSize = JNum 8\<rparr>
   \<and> fromEditorConfig [''indent_style'' \<mapsto> JStr ''unset'', ''indent_size'' \<mapsto> JNum 2]
     = \<lparr>insertSpaces = Undefined, indentSize = JNum 2, tabSize = Undefined\<rparr>
   \<and> insertSpaces (fromEditorConfig [''indent_style'' \<mapsto> JStr ''both'']) = JStr ''both''"
  using fromEditorConfig_mapping
          [of "[''indent_style'' \<mapsto> JStr ''space'', ''indent_size'' \<mapsto> JStr ''tab'',
                ''tab_width'' \<mapsto> JStr ''unset'']"]
        fromEditorConfig_mapping
          [of "[''indent_style'' \<mapsto> JStr ''tab'', ''indent_size'' \<mapsto> JStr ''unset'',
                ''tab_width'' \<mapsto> JNum 8]"]
        fromEditorConfig_mapping
          [of "[''indent_style'' \<mapsto> JStr ''unset'', ''indent_size'' \<mapsto> JNum 2]"]
        fromEditorConfig_mapping [of "[''indent_style'' \<mapsto> JStr ''both'']"]
  by (simp add: getProp_def fromEditorConfig_def)

section \<open>The live state must be resolved\<close>

text \<open>
  C10. If the live editor options are not fully resolved (\<open>insertSpaces\<close> not a boolean,
  \<open>tabSize\<close> or \<open>indentSize\<close> not a number), \<open>applyTextEditorOptions\<close> throws, with the
  message of the first failed check, and so performs no comparison, prompt or write; if
  they are resolved it does not throw.
\<close>

theorem applyTextEditorOptions_requires_resolved:
  "(\<not> (is_boolean (insertSpaces (options editor)) \<and> is_number (tabSize (options editor))
         \<and> is_number (indentSize (options editor)))
      \<longrightarrow> applyTextEditorOptions assign answer editor newOptions =
            Inl (if \<not> is_boolean (insertSpaces (options editor))
                   then ''Expected insertSpaces to be a boolean''
                 else if \<not> is_number (tabSize (options editor))
                   then ''Expected tabSize to be a number''
                 else ''Expected indentSize to be a number''))
   \<and> (is_boolean (insertSpaces (options editor)) \<and> is_number (tabSize (options editor))
         \<and> is_number (indentSize (options editor))
      \<longrightarrow> (\<exists>r. applyTextEditorOptions assign answer editor newOptions = Inr r))"
  by (auto simp: applyTextEditorOptions_def toTextEditorResolvedIndentationOptions_def Let_def
           split: prod.splits)

theorem applyTextEditorOptions_requires_resolved_witness:
  "applyTextEditorOptions storing_host (Some ''Yes'')
     \<lparr>options = \<lparr>insertSpaces = JStr ''auto'', indentSize = JNum 4, tabSize = JNum 4\<rparr>,
      settings = Map.empty\<rparr>
     \<lparr>insertSpaces = JBool True, indentSize = JNum 2, tabSize = Undefined\<rparr>
     = Inl ''Expected insertSpaces to be a boolean''
   \<and> applyTextEditorOptions storing_host (Some ''Yes'')
     \<lparr>options = \<lparr>insertSpaces = JBool True, indentSize = JStr ''tabSize'', tabSize = JNum 4\<rparr>,
      settings = Map.empty\<rparr>
     \<lparr>insertSpaces = JBool True, indentSize = JNum 2, tabSize = Undefined\<rparr>
     = Inl ''Expected indentSize to be a number''
   \<and> (\<exists>r. applyTextEditorOptions storing_host (Some ''No'')
     \<lparr>options = \<lparr>insertSpaces = JBool True, indentSize = JNum 4, tabSize = JNum 4\<rparr>,
      settings = Map.empty\<rparr>
     \<lparr>insertSpaces = JBool True, indentSize = JNum 2, tabSize = Undefined\<rparr> = Inr r)"
  using applyTextEditorOptions_requires_resolved
          [of "\<lparr>options = \<lparr>insertSpaces = JStr ''auto'', indentSize = JNum 4, tabSize = JNum 4\<rparr>,
                settings = Map.empty\<rparr>" storing_host "Some ''Yes''"
              "\<lparr>insertSpaces = JBool True, indentSize = JNum 2, tabSize = Undefined\<rparr>"]
        applyTextEditorOptions_requires_resolved
          [of "\<lparr>options = \<lparr>insertSpaces = JBool True, indentSize = JStr ''tabSize'', tabSize = JNum 4\<rparr>,
                settings = Map.empty\<rparr>" storing_host "Some ''Yes''"
              "\<lparr>insertSpaces = JBool True, indentSize = JNum 2, tabSize = Undefined\<rparr>"]
        applyTextEditorOptions_requires_resolved
          [of "\<lparr>options = \<lparr>insertSpaces = JBool True, indentSize = JNum 4, tabSize = JNum 4\<rparr>,
                settings = Map.empty\<rparr>" storing_host "Some ''No''"
              "\<lparr>insertSpaces = JBool True, indentSize = JNum 2, tabSize = Undefined\<rparr>"]
  by simp

section \<open>Policy gating of the tab width\<close>

text \<open>
  C5. With \<open>useTabSize\<close> false the diff never holds \<open>tabSize\<close>. So a desired intent that
  differs from the live state at most in its tab width makes the run end with no prompt and
  no write, whatever that tab width is; a desired style that differs from the live one
  still brings the prompt, and, once accepted, the write of the style.
\<close>

theorem useTabSize_false_drops_tabSize:
  assumes "is_boolean (insertSpaces (options editor))" "is_number (tabSize (options editor))"
     "is_number (indentSize (options editor))"
    and "\<not> truthy (getProp (settings editor) ''useTabSize'')"
  shows "tabSize (snd (detectChanges (options editor)
                         (getWorkspaceIndentationSettings (settings editor))
                         (truthy (getProp (settings editor) ''useTabSize'')) newOptions)) = Undefined
     \<and> (insertSpaces newOptions \<in> {Undefined, insertSpaces (options editor)}
          \<and> indentSize newOptions \<in> {Undefined, indentSize (options editor)}
          \<longrightarrow> applyTextEditorOptions assign answer editor newOptions = Inr ([], editor))
     \<and> (insertSpaces newOptions \<noteq> Undefined \<and> insertSpaces newOptions \<noteq> insertSpaces (options editor)
          \<longrightarrow> (\<exists>fx v. applyTextEditorOptions assign answer editor newOptions
                       = Inr (ShowWarningMessage promptItems # fx, v)
                  \<and> (answer \<in> {Some ''Yes'', Some ''Always Apply For Workspace''}
                       \<longrightarrow> SetOption InsertSpaces (insertSpaces newOptions) \<in> set fx)))"
proof (intro conjI impI)
  show "tabSize (snd (detectChanges (options editor)
                         (getWorkspaceIndentationSettings (settings editor))
                         (truthy (getProp (settings editor) ''useTabSize'')) newOptions)) = Undefined"
    using assms(4) by (simp add: detect_snd)
next
  assume "insertSpaces newOptions \<in> {Undefined, insertSpaces (options editor)}
          \<and> indentSize newOptions \<in> {Undefined, indentSize (options editor)}"
  then show "applyTextEditorOptions assign answer editor newOptions = Inr ([], editor)"
    using assms(4) by (auto simp: apply_resolved[OF assms(1-3)] detect_snd Let_def)
next
  assume h: "insertSpaces newOptions \<noteq> Undefined
               \<and> insertSpaces newOptions \<noteq> insertSpaces (options editor)"
  then have ne: "newOptions \<noteq> options editor" by auto
  show "\<exists>fx v. applyTextEditorOptions assign answer editor newOptions
                       = Inr (ShowWarningMessage promptItems # fx, v)
                  \<and> (answer \<in> {Some ''Yes'', Some ''Always Apply For Workspace''}
                       \<longrightarrow> SetOption InsertSpaces (insertSpaces newOptions) \<in> set fx)"
    using h ne
    by (auto simp: apply_resolved[OF assms(1-3)] detect_snd Let_def applyChanges_style)
qed

theorem useTabSize_false_drops_tabSize_witness:
  "applyTextEditorOptions storing_host (Some ''Yes'')
     \<lparr>options = \<lparr>insertSpaces = JBool True, indentSize = JNum 4, tabSize = JNum 4\<rparr>,
      settings = [''useTabSize'' \<mapsto> JBool False]\<rparr>
     (fromEditorConfig [''tab_width'' \<mapsto> JNum 8])
   = Inr ([], \<lparr>options = \<lparr>insertSpaces = JBool True, indentSize = JNum 4, tabSize = JNum 4\<rparr>,
               settings = [''useTabSize'' \<mapsto> JBool False]\<rparr>)
   \<and> (\<exists>fx v. applyTextEditorOptions storing_host (Some ''Yes'')
         \<lparr>options = \<lparr>insertSpaces = JBool True, indentSize = JNum 4, tabSize = JNum 4\<rparr>,
          settings = [''useTabSize'' \<mapsto> JBool False]\<rparr>
         (fromEditorConfig [''indent_style'' \<mapsto> JStr ''tab'', ''tab_width'' \<mapsto> JNum 8])
       = Inr (ShowWarningMessage promptItems # fx, v)
       \<and> SetOption InsertSpaces (JBool False) \<in> set fx)"
  using useTabSize_false_drops_tabSize
          [of "\<lparr>options = \<lparr>insertSpaces = JBool True, indentSize = JNum 4, tabSize = JNum 4\<rparr>,
                settings = [''useTabSize'' \<mapsto> JBool False]\<rparr>"
              "fromEditorConfig [''tab_width'' \<mapsto> JNum 8]" storing_host "Some ''Yes''"]
        useTabSize_false_drops_tabSize
          [of "\<lparr>options = \<lparr>insertSpaces = JBool True, indentSize = JNum 4, tabSize = JNum 4\<rparr>,
                settings = [''useTabSize'' \<mapsto> JBool False]\<rparr>"
              "fromEditorConfig [''indent_style'' \<mapsto> JStr ''tab'', ''tab_width'' \<mapsto> JNum 8]"
              storing_host "Some ''Yes''"]
  by (simp add: getProp_def fromEditorConfig_def)

section \<open>The derived tab size\<close>

text \<open>
  C6. When an accepted reconciliation switches the style to spaces and the diff holds no
  \<open>tabSize\<close>, the tab size written to the editor, right after the style flag, is the first
  defined value among the diff's \<open>indentSize\<close>, the desired \<open>indentSize\<close>, the workspace
  default indent size, the workspace default tab size, and 4. No option is written before
  the style flag, and a later assignment to \<open>tabSize\<close> carries the same value or
  \<open>undefined\<close>.
\<close>

theorem switch_to_spaces_derives_tabSize:
  assumes "is_boolean (insertSpaces (options editor))" "is_number (tabSize (options editor))"
     "is_number (indentSize (options editor))"
    and "answer \<in> {Some ''Yes'', Some ''Always Apply For Workspace''}"
    and "insertSpaces newOptions = JBool True"
    and "insertSpaces (options editor) \<noteq> JBool True"
    and "tabSize (snd (detectChanges (options editor)
                         (getWorkspaceIndentationSettings (settings editor))
                         (truthy (getProp (settings editor) ''useTabSize'')) newOptions)) = Undefined"
  shows "let ws = getWorkspaceIndentationSettings (settings editor);
             u = snd (detectChanges (options editor) ws
                        (truthy (getProp (settings editor) ''useTabSize'')) newOptions);
             derived = (if indentSize u \<noteq> Undefined then indentSize u
                        else if indentSize newOptions \<noteq> Undefined then indentSize newOptions
                        else if indentSize ws \<noteq> Undefined then indentSize ws
                        else if tabSize ws \<noteq> Undefined then tabSize ws
                        else JNum 4)
         in \<exists>pre post v.
              applyTextEditorOptions assign answer editor newOptions =
                Inr (pre @ [SetOption InsertSpaces (JBool True), SetOption TabSize derived] @ post, v)
              \<and> (\<forall>f x. SetOption f x \<notin> set pre)
              \<and> (\<forall>x. SetOption TabSize x \<in> set post \<longrightarrow> x = derived \<or> x = Undefined)"
proof -
  let ?ws = "getWorkspaceIndentationSettings (settings editor)"
  let ?d = "detectChanges (options editor) ?ws (truthy (getProp (settings editor) ''useTabSize'')) newOptions"
  let ?u = "snd ?d"
  let ?derived = "if indentSize ?u \<noteq> Undefined then indentSize ?u
                  else if indentSize newOptions \<noteq> Undefined then indentSize newOptions
                  else if indentSize ?ws \<noteq> Undefined then indentSize ?ws
                  else if tabSize ?ws \<noteq> Undefined then tabSize ?ws
                  else JNum 4"
  let ?pre = "ShowWarningMessage promptItems #
                (if answer = Some ''Always Apply For Workspace''
                 then [UpdateSetting ''autoApply'' (JBool True)] else [])"
  let ?e1 = "assign TabSize ?derived (assign InsertSpaces (JBool True) (options editor))"
  let ?post = "if insertSpaces ?e1 \<noteq> JBool True
               then [ShowErrorMessage ''Failed to change editor indentation'']
               else (if indentSize ?u \<noteq> Undefined then [SetOption IndentSize (indentSize ?u)] else [])
                    @ [SetOption TabSize (indentSize ?u)]"
  have ne: "newOptions \<noteq> options editor" using assms(5,6) by auto
  have style: "insertSpaces ?u = JBool True"
    using assms(5,6) by (simp add: detect_snd)
  have fb: "fallbackTabSize ?u (fst ?d) ?ws = ?derived"
    by (simp add: fallbackTabSize_def coalesce_def detect_fst)
  have defined: "?derived \<noteq> Undefined" by simp
  have chg: "fst (applyChanges assign (options editor) (fst ?d) ?ws ?u)
               = [SetOption InsertSpaces (JBool True), SetOption TabSize ?derived] @ ?post"
    using style assms(7) defined
    by (simp add: applyChanges_style fb Let_def)
  have "\<exists>v. applyTextEditorOptions assign answer editor newOptions =
          Inr (?pre @ [SetOption InsertSpaces (JBool True), SetOption TabSize ?derived] @ ?post, v)"
    using assms(4) ne style
    by (simp only: apply_resolved[OF assms(1-3)] Let_def chg) auto
  moreover have "\<forall>f x. SetOption f x \<notin> set ?pre" by simp
  moreover have "\<forall>x. SetOption TabSize x \<in> set ?post \<longrightarrow> x = ?derived \<or> x = Undefined"
    by (auto split: if_splits)
  ultimately show ?thesis unfolding Let_def by blast
qed

theorem switch_to_spaces_derives_tabSize_witness:
  "\<exists>pre post v.
     applyTextEditorOptions storing_host (Some ''Yes'')
       \<lparr>options = \<lparr>insertSpaces = JBool False, indentSize = JNum 4, tabSize = JNum 4\<rparr>,
        settings = [''indentSize'' \<mapsto> JNum 3, ''tabSize'' \<mapsto> JNum 8]\<rparr>
       (fromEditorConfig [''indent_style'' \<mapsto> JStr ''space''])
     = Inr (pre @ [SetOption InsertSpaces (JBool True), SetOption TabSize (JNum 3)] @ post, v)
     \<and> (\<forall>f x. SetOption f x \<notin> set pre)
     \<and> (\<forall>x. SetOption TabSize x \<in> set post \<longrightarrow> x = JNum 3 \<or> x = Undefined)"
  using switch_to_spaces_derives_tabSize
          [of "\<lparr>options = \<lparr>insertSpaces = JBool False, indentSize = JNum 4, tabSize = JNum 4\<rparr>,
                settings = [''indentSize'' \<mapsto> JNum 3, ''tabSize'' \<mapsto> JNum 8]\<rparr>"
              "Some ''Yes''" "fromEditorConfig [''indent_style'' \<mapsto> JStr ''space'']"
              storing_host]
  by (simp add: getProp_def fromEditorConfig_def getWorkspaceIndentationSettings_def
        detect_snd detect_fst Let_def)

section \<open>Applying a style change\<close>

text \<open>
  C3, as the code has it. In an accepted reconciliation whose diff holds a style change:
  when the change is to tabs, the bulk re-indentation command is requested, as an operation
  of its own, before the style flag is set; the style flag is set and \<open>tabSize\<close> is
  written at once (the diff's value, or the derived one on a switch to spaces); then the
  live style is read again, and if it is not the requested one an error message is shown
  and nothing more is written; otherwise \<open>indentSize\<close> is written, and \<open>tabSize\<close> a
  second time.
\<close>

theorem style_change_application:
  assumes "is_boolean (insertSpaces (options editor))" "is_number (tabSize (options editor))"
     "is_number (indentSize (options editor))"
    and "answer \<in> {Some ''Yes'', Some ''Always Apply For Workspace''}"
    and "insertSpaces newOptions \<noteq> Undefined"
    and "insertSpaces newOptions \<noteq> insertSpaces (options editor)"
  shows "let style = insertSpaces newOptions;
             ws = getWorkspaceIndentationSettings (settings editor);
             d = detectChanges (options editor) ws
                   (truthy (getProp (settings editor) ''useTabSize'')) newOptions;
             u = snd d;
             t = (if style = JBool True \<and> tabSize u = Undefined
                  then fallbackTabSize u (fst d) ws else tabSize u);
             e1 = assign TabSize t (assign InsertSpaces style (options editor))
         in \<exists>v. applyTextEditorOptions assign answer editor newOptions =
              Inr (ShowWarningMessage promptItems #
                   (if answer = Some ''Always Apply For Workspace''
                    then [UpdateSetting ''autoApply'' (JBool True)] else [])
                   @ (if style = JBool False
                      then [ExecuteCommand ''editor.action.indentationToTabs''] else [])
                   @ [SetOption InsertSpaces style, SetOption TabSize t]
                   @ (if insertSpaces e1 \<noteq> style
                      then [ShowErrorMessage ''Failed to change editor indentation'']
                      else (if indentSize u \<noteq> Undefined
                            then [SetOption IndentSize (indentSize u)] else [])
                           @ (if t \<noteq> Undefined then [SetOption TabSize (indentSize u)] else [])),
                   v)
              \<and> (insertSpaces e1 \<noteq> style \<longrightarrow> options v = e1)"
proof -
  let ?ws = "getWorkspaceIndentationSettings (settings editor)"
  let ?d = "detectChanges (options editor) ?ws (truthy (getProp (settings editor) ''useTabSize'')) newOptions"
  have ne: "newOptions \<noteq> options editor" using assms(6) by auto
  have style: "insertSpaces (snd ?d) = insertSpaces newOptions"
    using assms(5,6) by (simp add: detect_snd)
  show ?thesis
    using assms(4,5) ne style
    by (simp only: apply_resolved[OF assms(1-3)] Let_def)
       (auto simp: applyChanges_style Let_def)
qed

theorem style_change_application_witness:
  "(\<exists>v. applyTextEditorOptions style_locked_host (Some ''Always Apply For Workspace'')
       \<lparr>options = \<lparr>insertSpaces = JBool True, indentSize = JNum 4, tabSize = JNum 4\<rparr>,
        settings = Map.empty\<rparr>
       (fromEditorConfig [''indent_style'' \<mapsto> JStr ''tab'', ''indent_size'' \<mapsto> JNum 8])
     = Inr ([ShowWarningMessage promptItems, UpdateSetting ''autoApply'' (JBool True),
             ExecuteCommand ''editor.action.indentationToTabs'',
             SetOption InsertSpaces (JBool False), SetOption TabSize Undefined,
             ShowErrorMessage ''Failed to change editor indentation''], v)
     \<and> options v = \<lparr>insertSpaces = JBool True, indentSize = JNum 4, tabSize = Undefined\<rparr>)
   \<and> (\<exists>v. applyTextEditorOptions storing_host (Some ''Yes'')
       \<lparr>options = \<lparr>insertSpaces = JBool True, indentSize = JNum 4, tabSize = JNum 4\<rparr>,
        settings = Map.empty\<rparr>
       (fromEditorConfig [''indent_style'' \<mapsto> JStr ''tab'', ''indent_size'' \<mapsto> JNum 8])
     = Inr ([ShowWarningMessage promptItems,
             ExecuteCommand ''editor.action.indentationToTabs'',
             SetOption InsertSpaces (JBool False), SetOption TabSize Undefined,
             SetOption IndentSize (JNum 8)], v))"
  using style_change_application
          [of "\<lparr>options = \<lparr>insertSpaces = JBool True, indentSize = JNum 4, tabSize = JNum 4\<rparr>,
                settings = Map.empty\<rparr>"
              "Some ''Always Apply For Workspace''"
              "fromEditorConfig [''indent_style'' \<mapsto> JStr ''tab'', ''indent_size'' \<mapsto> JNum 8]"
              style_locked_host]
        style_change_application
          [of "\<lparr>options = \<lparr>insertSpaces = JBool True, indentSize = JNum 4, tabSize = JNum 4\<rparr>,
                settings = Map.empty\<rparr>"
              "Some ''Yes''"
              "fromEditorConfig [''indent_style'' \<mapsto> JStr ''tab'', ''indent_size'' \<mapsto> JNum 8]"
              storing_host]
  by (simp add: getProp_def fromEditorConfig_def getWorkspaceIndentationSettings_def
        detect_snd detect_fst Let_def)

theorem style_change_counterexample:
  "applyTextEditorOptions storing_host (Some ''Yes'')
     \<lparr>options = \<lparr>insertSpaces = JBool False, indentSize = JNum 4, tabSize = JNum 4\<rparr>,
      settings = Map.empty\<rparr>
     (fromEditorConfig [''indent_style'' \<mapsto> JStr ''space'', ''indent_size'' \<mapsto> JNum 2])
   = Inr ([ShowWarningMessage promptItems,
           SetOption InsertSpaces (JBool True), SetOption TabSize (JNum 2),
           SetOption IndentSize (JNum 2), SetOption TabSize (JNum 2)],
          \<lparr>options = \<lparr>insertSpaces = JBool True, indentSize = JNum 2, tabSize = JNum 2\<rparr>,
           settings = Map.empty\<rparr>)
   \<and> applyTextEditorOptions style_locked_host (Some ''Yes'')
     \<lparr>options = \<lparr>insertSpaces = JBool False, indentSize = JNum 4, tabSize = JNum 4\<rparr>,
      settings = Map.empty\<rparr>
     (fromEditorConfig [''indent_style'' \<mapsto> JStr ''space'', ''indent_size'' \<mapsto> JNum 2])
   = Inr ([ShowWarningMessage promptItems,
           SetOption InsertSpaces (JBool True), SetOption TabSize (JNum 2),
           ShowErrorMessage ''Failed to change editor indentation''],
          \<lparr>options = \<lparr>insertSpaces = JBool False, indentSize = JNum 4, tabSize = JNum 2\<rparr>,
           settings = Map.empty\<rparr>)"
  by (simp add: applyTextEditorOptions_def toTextEditorResolvedIndentationOptions_def
        getWorkspaceIndentationSettings_def detectChanges_def fromEditorConfig_def getProp_def
        emptyOptions_def applyChanges_def fallbackTabSize_def coalesce_def Let_def)

text \<open>
  A diff without a style change, once accepted: the check of the live style compares a
  boolean with the diff's undefined style, so the error message is shown and no option is
  written.
\<close>

lemma size_only_change_reports_failure:
  assumes "is_boolean (insertSpaces (options editor))" "is_number (tabSize (options editor))"
     "is_number (indentSize (options editor))"
    and "answer = Some ''Yes''"
    and "insertSpaces newOptions \<in> {Undefined, insertSpaces (options editor)}"
    and "indentSize newOptions \<noteq> Undefined"
    and "indentSize newOptions \<noteq> indentSize (options editor)"
  shows "applyTextEditorOptions assign answer editor newOptions =
           Inr ([ShowWarningMessage promptItems,
                 ShowErrorMessage ''Failed to change editor indentation''], editor)"
proof -
  have ne: "newOptions \<noteq> options editor" using assms(7) by auto
  have live: "insertSpaces (options editor) \<noteq> Undefined"
    using assms(1) by (cases "insertSpaces (options editor)") simp_all
  show ?thesis
    using assms(4-7) ne live
    by (auto simp: apply_resolved[OF assms(1-3)] detect_snd Let_def applyChanges_def)
qed

section \<open>The symbolic indent size\<close>




section \<open>The prompt and the remembered choice\<close>

text \<open>
  C1. The workspace configuration already holds \<open>autoApply = true\<close>, the live style is
  spaces and the configuration asks for tabs. The warning is shown all the same: answered
  with \<open>No\<close> nothing is applied, answered with \<open>Yes\<close> the change goes through.
\<close>

theorem prompt_shown_although_autoApply:
  "applyTextEditorOptions storing_host (Some ''No'')
     \<lparr>options = \<lparr>insertSpaces = JBool True, indentSize = JNum 4, tabSize = JNum 4\<rparr>,
      settings = [''autoApply'' \<mapsto> JBool True]\<rparr>
     (fromEditorConfig [''indent_style'' \<mapsto> JStr ''tab''])
   = Inr ([ShowWarningMessage [''Yes'', ''No'', ''Always Apply For Workspace'']],
          \<lparr>options = \<lparr>insertSpaces = JBool True, indentSize = JNum 4, tabSize = JNum 4\<rparr>,
           settings = [''autoApply'' \<mapsto> JBool True]\<rparr>)
   \<and> applyTextEditorOptions storing_host (Some ''Yes'')
     \<lparr>options = \<lparr>insertSpaces = JBool True, indentSize = JNum 4, tabSize = JNum 4\<rparr>,
      settings = [''autoApply'' \<mapsto> JBool True]\<rparr>
     (fromEditorConfig [''indent_style'' \<mapsto> JStr ''tab''])
   = Inr ([ShowWarningMessage [''Yes'', ''No'', ''Always Apply For Workspace''],
           ExecuteCommand ''editor.action.indentationToTabs'',
           SetOption InsertSpaces (JBool False), SetOption TabSize Undefined],
          \<lparr>options = \<lparr>insertSpaces = JBool False, indentSize = JNum 4, tabSize = Undefined\<rparr>,
           settings = [''autoApply'' \<mapsto> JBool True]\<rparr>)"
  by (simp add: applyTextEditorOptions_def toTextEditorResolvedIndentationOptions_def
        getWorkspaceIndentationSettings_def detectChanges_def fromEditorConfig_def getProp_def
        emptyOptions_def promptItems_def applyChanges_def Let_def)

text \<open>
  With a non-empty diff the warning is shown whatever the configuration holds. Any answer
  other than the two accepting ones ends the run with nothing else requested and the view
  unchanged; \<open>Always Apply For Workspace\<close> stores \<open>autoApply = true\<close> before anything is
  applied.
\<close>

lemma prompt_answers:
  assumes "is_boolean (insertSpaces (options editor))" "is_number (tabSize (options editor))"
     "is_number (indentSize (options editor))"
    and "snd (detectChanges (options editor) (getWorkspaceIndentationSettings (settings editor))
                (truthy (getProp (settings editor) ''useTabSize'')) newOptions) \<noteq> emptyOptions"
    and "newOptions \<noteq> options editor"
  shows "(answer \<notin> {Some ''Yes'', Some ''Always Apply For Workspace''}
            \<longrightarrow> applyTextEditorOptions assign answer editor newOptions
                  = Inr ([ShowWarningMessage promptItems], editor))
     \<and> (answer = Some ''Yes''
            \<longrightarrow> (\<exists>fx v. applyTextEditorOptions assign answer editor newOptions
                           = Inr (ShowWarningMessage promptItems # fx, v)
                         \<and> settings v = settings editor))
     \<and> (answer = Some ''Always Apply For Workspace''
            \<longrightarrow> (\<exists>fx v. applyTextEditorOptions assign answer editor newOptions
                           = Inr (ShowWarningMessage promptItems
                                  # UpdateSetting ''autoApply'' (JBool True) # fx, v)
                         \<and> settings v = (settings editor)(''autoApply'' \<mapsto> JBool True)))"
proof -
  let ?u = "snd (detectChanges (options editor) (getWorkspaceIndentationSettings (settings editor))
                (truthy (getProp (settings editor) ''useTabSize'')) newOptions)"
  have "\<not> (insertSpaces ?u = Undefined \<and> indentSize ?u = Undefined \<and> tabSize ?u = Undefined)"
    using assms(4) by (cases ?u) (auto simp: emptyOptions_def)
  then show ?thesis
    using assms(5) by (auto simp: apply_resolved[OF assms(1-3)] Let_def)
qed

section \<open>A desired intent that the live state already satisfies\<close>

text \<open>
  C4. The configuration sets only \<open>tab_width = 4\<close>, the live tab size is 4 and
  \<open>useTabSize\<close> is on: the desired intent matches the live state on the one field it
  defines. The tab size enters the diff without being compared, and the warning is shown.
\<close>

theorem matching_tabSize_still_prompts:
  "applyTextEditorOptions storing_host (Some ''No'')
     \<lparr>options = \<lparr>insertSpaces = JBool True, indentSize = JNum 4, tabSize = JNum 4\<rparr>,
      settings = [''useTabSize'' \<mapsto> JBool True]\<rparr>
     (fromEditorConfig [''tab_width'' \<mapsto> JNum 4])
   = Inr ([ShowWarningMessage [''Yes'', ''No'', ''Always Apply For Workspace'']],
          \<lparr>options = \<lparr>insertSpaces = JBool True, indentSize = JNum 4, tabSize = JNum 4\<rparr>,
           settings = [''useTabSize'' \<mapsto> JBool True]\<rparr>)
   \<and> snd (detectChanges \<lparr>insertSpaces = JBool True, indentSize = JNum 4, tabSize = JNum 4\<rparr>
            (getWorkspaceIndentationSettings [''useTabSize'' \<mapsto> JBool True]) True
            (fromEditorConfig [''tab_width'' \<mapsto> JNum 4]))
     = \<lparr>insertSpaces = Undefined, indentSize = Undefined, tabSize = JNum 4\<rparr>"
  by (simp add: applyTextEditorOptions_def toTextEditorResolvedIndentationOptions_def
        getWorkspaceIndentationSettings_def detectChanges_def fromEditorConfig_def getProp_def
        emptyOptions_def promptItems_def Let_def)

section \<open>The pre-save pipeline\<close>

text \<open>
  C8. The pipeline holds the line-ending normalizer, the trailing-whitespace trimmer and
  the final-newline inserter, in this order, and when the configuration resolves it runs
  them in this order: log entries and edits are those of the three steps, concatenated.
  A transformation that reports failure contributes no edit and one log entry with its
  message; whatever the others do, each non-failing one contributes exactly its edits.
\<close>

theorem preSave_pipeline_order_and_failure:
  "preSaveTransformations = [SetEndOfLine, TrimTrailingWhitespace, InsertFinalNewline]
   \<and> (resolveEditorConfigFromFiles env (Some onBeforeResolve) doc = (fx0, Some s) \<longrightarrow>
        (let relativePath = asRelativePath env (fileName doc) None;
             step = transformStep transform relativePath s doc reason
         in calculatePreSaveTransformations env transform doc reason =
              (fx0 @ fst (step SetEndOfLine) @ fst (step TrimTrailingWhitespace)
                   @ fst (step InsertFinalNewline),
               snd (step SetEndOfLine) @ snd (step TrimTrailingWhitespace)
                   @ snd (step InsertFinalNewline))
            \<and> (\<forall>t err. edits (transform t s doc reason) = Inl err
                   \<longrightarrow> step t = ([Log (relativePath @ '': '' @ err)], []))
            \<and> (\<forall>t es. edits (transform t s doc reason) = Inr es \<longrightarrow> snd (step t) = es)))"
  by (simp add: preSaveTransformations_def calculatePreSaveTransformations_def
        transformStep_def Let_def split_beta)

theorem preSave_pipeline_order_and_failure_witness:
  "calculatePreSaveTransformations
     \<lparr>workspaceFolders = [], asRelativePath = (\<lambda>p w. p), joinPath = (\<lambda>a b. a @ b),
      parse = (\<lambda>f. Some [''insert_final_newline'' \<mapsto> JBool True])\<rparr>
     (\<lambda>t s d r. case t of
          SetEndOfLine \<Rightarrow> \<lparr>edits = Inr [1::nat], message = None\<rparr>
        | TrimTrailingWhitespace \<Rightarrow> \<lparr>edits = Inl ''unexpected value'', message = None\<rparr>
        | InsertFinalNewline \<Rightarrow> \<lparr>edits = Inr [2, 3], message = Some ''insertFinalNewline''\<rparr>)
     \<lparr>languageId = ''plaintext'', isUntitled = False, uri = ''a.txt'', fileName = ''a.txt''\<rparr>
     ()
   = ([Log ''a.txt: Using EditorConfig core...'', Log ''a.txt: unexpected value'',
       Log ''a.txt: insertFinalNewline''],
      [1, 2, 3])"
  using preSave_pipeline_order_and_failure
          [of "\<lparr>workspaceFolders = [], asRelativePath = (\<lambda>p w. p), joinPath = (\<lambda>a b. a @ b),
                parse = (\<lambda>f. Some [''insert_final_newline'' \<mapsto> JBool True])\<rparr>"
              "\<lparr>languageId = ''plaintext'', isUntitled = False, uri = ''a.txt'', fileName = ''a.txt''\<rparr>"
              "[Log ''a.txt: Using EditorConfig core...'']"
              "[''insert_final_newline'' \<mapsto> JBool True]"
              "\<lambda>t s d r. case t of
                  SetEndOfLine \<Rightarrow> \<lparr>edits = Inr [1::nat], message = None\<rparr>
                | TrimTrailingWhitespace \<Rightarrow> \<lparr>edits = Inl ''unexpected value'', message = None\<rparr>
                | InsertFinalNewline \<Rightarrow> \<lparr>edits = Inr [2, 3], message = Some ''insertFinalNewline''\<rparr>"
              "()"]
  by (simp add: resolveEditorConfigFromFiles_def resolveFile_def getFile_def onBeforeResolve_def
        transformStep_def Let_def)

section \<open>A document without configuration\<close>

text \<open>
  C9. For a saved document the parser finds no configuration and returns the empty
  property map. The watcher's \<open>No configuration.\<close> report is not written: the run has no
  log entry at all. It shows no prompt and leaves the live state as it was. Before a save
  the report \<open>No configuration found for pre-save.\<close> is not written either.
\<close>

theorem empty_configuration_not_reported:
  "handleChangeActiveTextEditor
     \<lparr>workspaceFolders = [''/w''], asRelativePath = (\<lambda>p w. p), joinPath = (\<lambda>a b. a @ b),
      parse = (\<lambda>f. Some Map.empty)\<rparr>
     storing_host None
     (Some \<lparr>options = \<lparr>insertSpaces = JBool True, indentSize = JNum 4, tabSize = JNum 4\<rparr>,
            settings = Map.empty,
            document = \<lparr>languageId = ''plaintext'', isUntitled = False, uri = ''/w/a.txt'',
                        fileName = ''/w/a.txt''\<rparr>\<rparr>)
   = ([], Some (Inr ([],
         \<lparr>options = \<lparr>insertSpaces = JBool True, indentSize = JNum 4, tabSize = JNum 4\<rparr>,
          settings = Map.empty,
          document = \<lparr>languageId = ''plaintext'', isUntitled = False, uri = ''/w/a.txt'',
                      fileName = ''/w/a.txt''\<rparr>\<rparr>)))
   \<and> fst (calculatePreSaveTransformations
     \<lparr>workspaceFolders = [''/w''], asRelativePath = (\<lambda>p w. p), joinPath = (\<lambda>a b. a @ b),
      parse = (\<lambda>f. Some Map.empty)\<rparr>
     (\<lambda>t s d r. \<lparr>edits = Inr ([]::nat list), message = None\<rparr>)
     \<lparr>languageId = ''plaintext'', isUntitled = False, uri = ''/w/a.txt'', fileName = ''/w/a.txt''\<rparr>
     ())
   = [Log ''/w/a.txt: Using EditorConfig core...'']"
  by (simp add: handleChangeActiveTextEditor_def resolveEditorConfigOptions_def
        resolveEditorConfigFromFiles_def resolveFile_def getFile_def onBeforeResolve_def
        calculatePreSaveTransformations_def preSaveTransformations_def transformStep_def
        applyTextEditorOptions_def toTextEditorResolvedIndentationOptions_def
        getWorkspaceIndentationSettings_def detectChanges_def fromEditorConfig_def getProp_def
        emptyOptions_def Let_def)

end
